theory Spec2Isabelle
  imports Main "HOL-Library.Sublist"
begin

section \<open>JavaScript strings and regular expressions\<close>

text \<open>
  A JavaScript string is modelled as a \<^typ>\<open>string\<close>: a list of code units, here the
  ones below 256. \<^verbatim>\<open>value.length\<close> is \<^const>\<open>length\<close>. The character classes of the
  regular expressions of the source name ASCII ranges only.

  The regular expressions of the source use classes, sequence, \<^verbatim>\<open>+\<close>, \<^verbatim>\<open>*\<close>,
  \<^verbatim>\<open>?\<close> and bounded repetition. They are written as terms of \<open>regex\<close> and run by
  derivatives. \<^verbatim>\<open>RegExp.prototype.test\<close> searches for a match that starts anywhere,
  so the anchors \<^verbatim>\<open>^\<close> and \<^verbatim>\<open>$\<close> of a literal decide which of the three tests
  below stands for it.
\<close>

datatype regex =
    Never
  | Empty
  | OneOf "(char \<times> char) list"
  | NoneOf "(char \<times> char) list"
  | Seq regex regex
  | Alt regex regex
  | Many regex
  | Upto nat regex

definition in_ranges :: "char \<Rightarrow> (char \<times> char) list \<Rightarrow> bool" where
  "in_ranges c rs =
     list_ex (\<lambda>(lo, hi). (of_char lo :: nat) \<le> of_char c \<and> (of_char c :: nat) \<le> of_char hi) rs"

fun nullable :: "regex \<Rightarrow> bool" where
  "nullable Never = False"
| "nullable Empty = True"
| "nullable (OneOf rs) = False"
| "nullable (NoneOf rs) = False"
| "nullable (Seq r s) = (nullable r \<and> nullable s)"
| "nullable (Alt r s) = (nullable r \<or> nullable s)"
| "nullable (Many r) = True"
| "nullable (Upto n r) = True"

fun deriv :: "char \<Rightarrow> regex \<Rightarrow> regex" where
  "deriv c Never = Never"
| "deriv c Empty = Never"
| "deriv c (OneOf rs) = (if in_ranges c rs then Empty else Never)"
| "deriv c (NoneOf rs) = (if in_ranges c rs then Never else Empty)"
| "deriv c (Seq r s) =
     (if nullable r then Alt (Seq (deriv c r) s) (deriv c s) else Seq (deriv c r) s)"
| "deriv c (Alt r s) = Alt (deriv c r) (deriv c s)"
| "deriv c (Many r) = Seq (deriv c r) (Many r)"
| "deriv c (Upto 0 r) = Never"
| "deriv c (Upto (Suc n) r) = Seq (deriv c r) (Upto n r)"

fun rx_match :: "regex \<Rightarrow> string \<Rightarrow> bool" where
  "rx_match r [] = nullable r"
| "rx_match r (c # cs) = rx_match (deriv c r) cs"

definition anything :: regex where
  "anything = Many (NoneOf [])"

text \<open>\<^verbatim>\<open>/^r$/.test(s)\<close>, \<^verbatim>\<open>/r$/.test(s)\<close> and \<^verbatim>\<open>/r/.test(s)\<close>.\<close>

definition test_whole :: "regex \<Rightarrow> string \<Rightarrow> bool" where
  "test_whole r s = rx_match r s"

definition test_at_end :: "regex \<Rightarrow> string \<Rightarrow> bool" where
  "test_at_end r s = rx_match (Seq anything r) s"

definition test_search :: "regex \<Rightarrow> string \<Rightarrow> bool" where
  "test_search r s = rx_match (Seq anything (Seq r anything)) s"

text \<open>Abbreviations for the pieces of the source's patterns.\<close>

definition one_or_more :: "regex \<Rightarrow> regex" where \<comment> \<open>\<^verbatim>\<open>r+\<close>\<close>
  "one_or_more r = Seq r (Many r)"

definition optional :: "regex \<Rightarrow> regex" where \<comment> \<open>\<^verbatim>\<open>r?\<close>\<close>
  "optional r = Upto 1 r"

fun exactly :: "nat \<Rightarrow> regex \<Rightarrow> regex" where \<comment> \<open>\<^verbatim>\<open>r{n}\<close>\<close>
  "exactly 0 r = Empty"
| "exactly (Suc n) r = Seq r (exactly n r)"

definition lit :: "char \<Rightarrow> regex" where
  "lit c = OneOf [(c, c)]"

definition digit :: regex where \<comment> \<open>\<^verbatim>\<open>\d\<close> and \<^verbatim>\<open>[0-9]\<close>\<close>
  "digit = OneOf [(CHR ''0'', CHR ''9'')]"

text \<open>
  \<^verbatim>\<open>haystack.indexOf(needle)\<close>: the first position at which \<^verbatim>\<open>needle\<close> starts, or
  \<^verbatim>\<open>-1\<close>. The empty needle is found at position 0, also in the empty string.
\<close>

fun indexOf_from :: "string \<Rightarrow> string \<Rightarrow> int \<Rightarrow> int" where
  "indexOf_from [] needle i = (if needle = [] then i else - 1)"
| "indexOf_from (c # cs) needle i =
     (if prefix needle (c # cs) then i else indexOf_from cs needle (i + 1))"

definition indexOf :: "string \<Rightarrow> string \<Rightarrow> int" where
  "indexOf haystack needle = indexOf_from haystack needle 0"


section \<open>Layer 5: raw validation functions (drupalValidatorBasics.js)\<close>

text \<open>
  \<^verbatim>\<open>lengthValid(value, min, max, fail_on_blank)\<close>. A bound can be \<^verbatim>\<open>undefined\<close>
  (\<open>None\<close>); a comparison of a number with \<^verbatim>\<open>undefined\<close> is false.
\<close>

definition js_less :: "nat \<Rightarrow> nat option \<Rightarrow> bool" where
  "js_less n bound = (case bound of None \<Rightarrow> False | Some b \<Rightarrow> n < b)"

definition js_greater :: "nat \<Rightarrow> nat option \<Rightarrow> bool" where
  "js_greater n bound = (case bound of None \<Rightarrow> False | Some b \<Rightarrow> n > b)"

definition lengthValid :: "string \<Rightarrow> nat option \<Rightarrow> nat option \<Rightarrow> bool \<Rightarrow> bool" where
  "lengthValid value min_len max_len fail_on_blank =
     (if min_len = None \<and> max_len = None then True
      else if \<not> fail_on_blank \<and> length value = 0 then True
      else if min_len = None \<and> js_greater (length value) max_len then False
      else if max_len = None \<and> js_less (length value) min_len then False
      else if js_less (length value) min_len \<or> js_greater (length value) max_len then False
      else True)"

definition fieldNotEmpty :: "string \<Rightarrow> bool" where
  "fieldNotEmpty value = lengthValid value (Some 1) (Some 999999) True"

text \<open>\<^verbatim>\<open>/^\d{3}-?\d{2}-?\d{4}$/\<close>\<close>

definition socialRegex :: regex where
  "socialRegex =
     Seq (exactly 3 digit) (Seq (optional (lit CHR ''-'')) (Seq (exactly 2 digit)
       (Seq (optional (lit CHR ''-'')) (exactly 4 digit))))"

definition ssnValid :: "string \<Rightarrow> bool \<Rightarrow> bool" where
  "ssnValid value error_on_blank =
     (let count = length value in
      if count = 0 \<and> error_on_blank = False then True
      else if (count \<noteq> 0 \<and> count < 9) \<or> \<not> test_whole socialRegex value then False
      else True)"

text \<open>
  The pattern of \<^verbatim>\<open>emailValid\<close>: a local part, \<^verbatim>\<open>@\<close>, and dot-separated labels of
  at most 63 letters, digits and hyphens, up to the end of the string. It has no
  \<^verbatim>\<open>^\<close>.
\<close>

definition alnum :: regex where
  "alnum = OneOf [(CHR ''a'', CHR ''z''), (CHR ''A'', CHR ''Z''), (CHR ''0'', CHR ''9'')]"

definition alnum_hyphen :: regex where
  "alnum_hyphen =
     OneOf [(CHR ''a'', CHR ''z''), (CHR ''A'', CHR ''Z''), (CHR ''0'', CHR ''9''),
            (CHR ''-'', CHR ''-'')]"

definition email_local :: regex where
  "email_local =
     OneOf ([(CHR ''a'', CHR ''z''), (CHR ''A'', CHR ''Z''), (CHR ''0'', CHR ''9'')]
            @ map (\<lambda>c. (c, c)) (''.!#$%&'' @ [CHR 0x27] @ ''*+/=?^_`{|}~-''))"

definition email_label :: regex where
  "email_label = Seq alnum (optional (Seq (Upto 61 alnum_hyphen) alnum))"

definition emailRegex :: regex where
  "emailRegex =
     Seq (one_or_more email_local) (Seq (lit CHR ''@'')
       (Seq email_label (Many (Seq (lit CHR ''.'') email_label))))"

definition emailValid :: "string \<Rightarrow> bool \<Rightarrow> bool" where
  "emailValid value error_on_blank =
     (if length value = 0 \<and> error_on_blank = False then True
      else test_at_end emailRegex value)"

text \<open>
  \<^verbatim>\<open>phoneValid\<close> builds its third pattern from the first character of the value:
  \<^verbatim>\<open>new RegExp("^" + firstChar + "+$")\<close>. For the empty value \<^verbatim>\<open>value[0]\<close> is
  \<^verbatim>\<open>undefined\<close> and the pattern is \<^verbatim>\<open>^undefined+$\<close>. A first character that is a
  regular expression operator makes the pattern \<^verbatim>\<open>^.+$\<close> or \<^verbatim>\<open>^\+$\<close>, or an
  invalid pattern, on which the constructor throws a \<^verbatim>\<open>SyntaxError\<close>.
\<close>

datatype js_error = SyntaxError

definition numericRegex :: regex where \<comment> \<open>\<^verbatim>\<open>/^\d{3}-?\d{3}-?\d{4}$/\<close>\<close>
  "numericRegex =
     Seq (exactly 3 digit) (Seq (optional (lit CHR ''-'')) (Seq (exactly 3 digit)
       (Seq (optional (lit CHR ''-'')) (exactly 4 digit))))"

definition sameCharRegExp :: "char option \<Rightarrow> js_error + regex" where
  "sameCharRegExp firstChar =
     (case firstChar of
        None \<Rightarrow>
          Inr (foldr (\<lambda>c rest. Seq (lit c) rest) ''undefine'' (one_or_more (lit CHR ''d'')))
      | Some c \<Rightarrow>
          if c \<in> set ''^$*+?()[|'' then Inl SyntaxError
          else if c = CHR 0x5C then Inr (lit CHR ''+'')
          else if c = CHR ''.''
          then Inr (one_or_more (NoneOf [(CHR 0x0A, CHR 0x0A), (CHR 0x0D, CHR 0x0D)]))
          else Inr (one_or_more (lit c)))"

definition strip_dashes :: "string \<Rightarrow> string" where \<comment> \<open>\<^verbatim>\<open>value.replace(/-/g, "")\<close>\<close>
  "strip_dashes value = filter (\<lambda>c. c \<noteq> CHR ''-'') value"

definition replace_whole :: "regex \<Rightarrow> string \<Rightarrow> string \<Rightarrow> string" where
  \<comment> \<open>\<^verbatim>\<open>s.replace(/^r$/, repl)\<close>: the only possible match is the whole string\<close>
  "replace_whole r repl s = (if test_whole r s then repl else s)"

definition phoneValid :: "string \<Rightarrow> bool \<Rightarrow> js_error + bool" where
  "phoneValid value error_on_blank =
     (if length value = 0 \<and> error_on_blank = False then Inr True
      else
        let firstChar = (case value of [] \<Rightarrow> None | c # _ \<Rightarrow> Some c);
            ruleOne = test_whole numericRegex value;
            ruleTwo = (length (strip_dashes value) = 10)
        in case sameCharRegExp firstChar of
             Inl e \<Rightarrow> Inl e
           | Inr same \<Rightarrow>
               let ruleThere = (length (replace_whole same [] (strip_dashes value)) \<noteq> 0)
               in Inr (ruleOne \<and> ruleTwo \<and> ruleThere))"

definition doesNotContainValue :: "string \<Rightarrow> string \<Rightarrow> bool \<Rightarrow> bool" where
  "doesNotContainValue needle haystack error_on_blank =
     (if length needle = 0 \<and> \<not> error_on_blank then True
      else if indexOf haystack needle = - 1 then True
      else False)"

definition containsUppercase :: "string \<Rightarrow> bool" where \<comment> \<open>\<^verbatim>\<open>/[A-Z]+/\<close>\<close>
  "containsUppercase value = test_search (one_or_more (OneOf [(CHR ''A'', CHR ''Z'')])) value"

definition containsLowercase :: "string \<Rightarrow> bool" where \<comment> \<open>\<^verbatim>\<open>/[a-z]+/\<close>\<close>
  "containsLowercase value = test_search (one_or_more (OneOf [(CHR ''a'', CHR ''z'')])) value"

definition containsNumber :: "string \<Rightarrow> bool" where \<comment> \<open>\<^verbatim>\<open>/[0-9]+/\<close>\<close>
  "containsNumber value = test_search (one_or_more digit) value"

definition containsOnlyNumeric :: "string \<Rightarrow> bool" where \<comment> \<open>\<^verbatim>\<open>/[^0-9]+/\<close>\<close>
  "containsOnlyNumeric value =
     (\<not> test_search (one_or_more (NoneOf [(CHR ''0'', CHR ''9'')])) value)"

definition containsLowerAndUppercase :: "string \<Rightarrow> bool" where
  "containsLowerAndUppercase value = (containsUppercase value \<and> containsLowercase value)"


section \<open>The page: what jQuery reads and writes\<close>

text \<open>
  The functions of layers 3 and 4 reach the page through jQuery only. The page is the
  list of its elements, each with its chain of ancestors (nearest first), its tag name
  in lower case, its class list, its \<^verbatim>\<open>id\<close> and \<^verbatim>\<open>for\<close> attributes, its value
  and its inner HTML. A jQuery object is the list of the elements it holds. The order
  of \<open>nodes\<close> carries no meaning: the functions below count matches or update all of
  them. An error message is taken as text, and an \<^verbatim>\<open>id\<close> as free of quotes, so that
  the selector built from it selects the labels of exactly that id.
\<close>

type_synonym node = nat

record dom =
  nodes :: "node list"
  ancestors :: "node \<Rightarrow> node list"
  tag :: "node \<Rightarrow> string"
  classes :: "node \<Rightarrow> string list"
  attr_id :: "node \<Rightarrow> string option"
  attr_for :: "node \<Rightarrow> string option"
  val :: "node \<Rightarrow> string"
  html :: "node \<Rightarrow> string"

datatype selector =
    Tag string \<comment> \<open>\<^verbatim>\<open>form\<close>\<close>
  | Class string \<comment> \<open>\<^verbatim>\<open>.messages\<close>\<close>
  | TagClass string string \<comment> \<open>\<^verbatim>\<open>input.error\<close>\<close>
  | LabelFor string \<comment> \<open>\<^verbatim>\<open>label[for='...']\<close>\<close>

fun matches :: "dom \<Rightarrow> selector \<Rightarrow> node \<Rightarrow> bool" where
  "matches d (Tag t) n = (tag d n = t)"
| "matches d (Class c) n = (c \<in> set (classes d n))"
| "matches d (TagClass t c) n = (tag d n = t \<and> c \<in> set (classes d n))"
| "matches d (LabelFor i) n = (tag d n = ''label'' \<and> attr_for d n = Some i)"

definition js_string :: "string option \<Rightarrow> string" where \<comment> \<open>\<^verbatim>\<open>"" + x\<close>\<close>
  "js_string x = (case x of None \<Rightarrow> ''undefined'' | Some s \<Rightarrow> s)"

definition query :: "dom \<Rightarrow> selector \<Rightarrow> node list" where \<comment> \<open>\<^verbatim>\<open>jQuery(selector)\<close>\<close>
  "query d sel = filter (matches d sel) (nodes d)"

definition closest :: "dom \<Rightarrow> selector \<Rightarrow> node list \<Rightarrow> node list" where
  "closest d sel ns =
     remdups (concat (map (\<lambda>n. take 1 (filter (matches d sel) (n # ancestors d n))) ns))"

definition find_in :: "dom \<Rightarrow> selector \<Rightarrow> node list \<Rightarrow> node list" where \<comment> \<open>\<^verbatim>\<open>.find(selector)\<close>\<close>
  "find_in d sel ns =
     filter (\<lambda>m. matches d sel m \<and> list_ex (\<lambda>n. n \<in> set (ancestors d m)) ns) (nodes d)"

definition siblings :: "dom \<Rightarrow> selector \<Rightarrow> node list \<Rightarrow> node list" where
  "siblings d sel ns =
     filter (\<lambda>m. matches d sel m \<and>
                 list_ex (\<lambda>n. m \<noteq> n \<and> ancestors d n \<noteq> [] \<and>
                              take 1 (ancestors d m) = take 1 (ancestors d n)) ns)
            (nodes d)"

definition hasClass :: "string \<Rightarrow> node list \<Rightarrow> dom \<Rightarrow> bool" where
  "hasClass c ns d = list_ex (\<lambda>n. c \<in> set (classes d n)) ns"

definition addClass :: "string \<Rightarrow> node list \<Rightarrow> dom \<Rightarrow> dom" where
  "addClass c ns d =
     d\<lparr>classes := (\<lambda>n. if n \<in> set ns \<and> c \<notin> set (classes d n)
                        then classes d n @ [c] else classes d n)\<rparr>"

definition removeClass :: "string \<Rightarrow> node list \<Rightarrow> dom \<Rightarrow> dom" where
  "removeClass c ns d =
     d\<lparr>classes := (\<lambda>n. if n \<in> set ns then removeAll c (classes d n) else classes d n)\<rparr>"

definition set_html :: "string \<Rightarrow> node list \<Rightarrow> dom \<Rightarrow> dom" where \<comment> \<open>\<^verbatim>\<open>.html(text)\<close>\<close>
  "set_html text ns d = d\<lparr>html := (\<lambda>n. if n \<in> set ns then text else html d n)\<rparr>"

text \<open>
  \<^verbatim>\<open>.after('<div class="messages error messages-inline">' + message + '</div>')\<close>:
  a new element becomes a sibling of each element of the jQuery object that has a
  parent.
\<close>

definition fresh_node :: "dom \<Rightarrow> node" where
  "fresh_node d = Suc (fold max (nodes d) 0)"

definition after_message :: "string \<Rightarrow> node \<Rightarrow> dom \<Rightarrow> dom" where
  "after_message message x d =
     (case ancestors d x of
        [] \<Rightarrow> d
      | p # ps \<Rightarrow>
          let n = fresh_node d in
          d\<lparr>nodes := nodes d @ [n],
            ancestors := (ancestors d)(n := p # ps),
            tag := (tag d)(n := ''div''),
            classes := (classes d)(n := [''messages'', ''error'', ''messages-inline'']),
            attr_id := (attr_id d)(n := None),
            attr_for := (attr_for d)(n := None),
            val := (val d)(n := []),
            html := (html d)(n := message)\<rparr>)"

definition after_messages :: "string \<Rightarrow> node list \<Rightarrow> dom \<Rightarrow> dom" where
  "after_messages message ns d = fold (after_message message) ns d"


section \<open>Layer 4: error state functions (drupalValidator.js)\<close>

text \<open>
  \<^verbatim>\<open>otherErrorsExist(element)\<close>. The argument is a DOM element, as the function
  documents it, and \<^verbatim>\<open>jQuery(element)\<close> holds that one element. A jQuery object is
  truthy, so the test \<^verbatim>\<open>if (my_form)\<close> always succeeds. The function returns its
  verdict and the page as it leaves it.
\<close>

definition otherErrorsExist :: "node \<Rightarrow> dom \<Rightarrow> bool \<times> dom" where
  "otherErrorsExist element d =
     (let my_form = closest d (Tag ''form'') [element];
          error_elements = find_in d (TagClass ''input'' ''error'') my_form;
          count = fold (\<lambda>value count. if value \<noteq> element then count + 1 else count)
                    error_elements (0 :: nat)
      in if count > 0 then (True, d) else (False, d))"

definition label_of :: "dom \<Rightarrow> node \<Rightarrow> node list" where
  \<comment> \<open>\<^verbatim>\<open>jQuery("label[for='" + jQuery(element).attr("id") + "']").closest('.form-item-label')\<close>\<close>
  "label_of d element =
     closest d (Class ''form-item-label'') (query d (LabelFor (js_string (attr_id d element))))"

definition message_of :: "dom \<Rightarrow> node \<Rightarrow> node list" where
  \<comment> \<open>\<^verbatim>\<open>jQuery(element).closest('.form-item').siblings('.messages')\<close>\<close>
  "message_of d element =
     siblings d (Class ''messages'') (closest d (Class ''form-item'') [element])"

definition setErrorState :: "node \<Rightarrow> string \<Rightarrow> dom \<Rightarrow> dom" where
  "setErrorState element message d0 =
     (let d1 = addClass ''error'' [element] d0;
          element_label = label_of d1 element;
          d2 = (if \<not> hasClass ''error'' element_label d1
                then addClass ''error'' element_label d1 else d1);
          my_form = closest d2 (Tag ''form'') [element];
          d3 = addClass ''form-error-state'' my_form d2;
          element_error_message = message_of d3 element
      in if length element_error_message \<le> 0
         then after_messages message (closest d3 (Class ''form-item'') [element]) d3
         else set_html message element_error_message d3)"

definition recoverErrorState :: "node \<Rightarrow> dom \<Rightarrow> dom" where
  "recoverErrorState element d0 =
     (let d1 = removeClass ''error'' [element] d0;
          d2 = removeClass ''error'' (label_of d1 element) d1;
          (others, d3) = otherErrorsExist element d2;
          d4 = (if others = False
                then removeClass ''form-error-state''
                       (closest d3 (Class ''form-error-state'') [element]) d3
                else d3);
          element_error_message = message_of d4 element
      in set_html [] element_error_message d4)"


section \<open>Layer 3.B: evaluating a rule set (drupalValidator.js)\<close>

text \<open>
  \<^verbatim>\<open>runValidationRuleset(validation_callbacks, return_errors, halt_on_error)\<close> receives
  the already computed rule results. It answers either with one boolean or with the
  array of results, so its result is a tagged union.
\<close>

datatype ruleset_result = Verdict bool | Results "bool list"

text \<open>
  The body of the \<^verbatim>\<open>for\<close> loop, run over the entries that are left. The state of the
  loop is \<^verbatim>\<open>error_array\<close> and \<^verbatim>\<open>errors\<close>; \<open>None\<close> is the early
  \<^verbatim>\<open>return false\<close> taken inside the loop.
\<close>

fun ruleset_loop :: "bool list \<Rightarrow> bool \<Rightarrow> bool \<Rightarrow> bool list \<times> bool \<Rightarrow> (bool list \<times> bool) option" where
  "ruleset_loop [] return_errors halt_on_error (error_array, errors) = Some (error_array, errors)"
| "ruleset_loop (my_result # rest) return_errors halt_on_error (error_array, errors) =
     (if halt_on_error = True \<and> my_result = False then None
      else ruleset_loop rest return_errors halt_on_error
             (error_array @ [my_result],
              if return_errors \<noteq> True \<and> my_result = False then True else errors))"

definition runValidationRuleset :: "bool list \<Rightarrow> bool \<Rightarrow> bool \<Rightarrow> ruleset_result" where
  "runValidationRuleset validation_callbacks return_errors halt_on_error =
     (case (if length validation_callbacks > 0
            then ruleset_loop validation_callbacks return_errors halt_on_error ([], False)
            else Some ([], False)) of
        None \<Rightarrow> Verdict False
      | Some (error_array, errors) \<Rightarrow>
          if return_errors = True then Results error_array else Verdict (\<not> errors))"


section \<open>Layer 3: binding a verdict to the error state (drupalValidator.js)\<close>

definition bindValidationError :: "node \<Rightarrow> bool \<Rightarrow> string \<Rightarrow> dom \<Rightarrow> bool \<times> dom" where
  "bindValidationError field callback error_message d =
     (if callback = False then (False, setErrorState field error_message d)
      else (True, d))"

text \<open>
  The third argument of \<^verbatim>\<open>bindFieldValidationArray\<close> is a string, a boolean or
  anything else (\<^verbatim>\<open>undefined\<close> when it is left out).
\<close>

datatype report = Message string | Flag bool | Neither

definition bindFieldValidationArray :: "node \<Rightarrow> bool list \<Rightarrow> report \<Rightarrow> dom \<Rightarrow> bool \<times> dom" where
  "bindFieldValidationArray field validaton_callbacks report_error_message0 d =
     (let (error_message, report_error_message) =
            (case report_error_message0 of
               Message m \<Rightarrow> (m, False)
             | Flag b \<Rightarrow> ([], if b \<noteq> False then True else b)
             | Neither \<Rightarrow> ([], True));
          results = runValidationRuleset validaton_callbacks False True
      in if report_error_message = False \<and> results = Verdict True
         then (True, recoverErrorState field d)
         else if results = Verdict False \<and> report_error_message = False
         then (False, setErrorState field error_message d)
         else (False, d))"

text \<open>
  The validators of layer 3 read the value of the field, compute the rule results in
  order and hand them over. \<^verbatim>\<open>phoneValid\<close> can throw, and then so does
  \<^verbatim>\<open>validatePhoneField\<close>.
\<close>

definition validateSSNField :: "node \<Rightarrow> string \<Rightarrow> bool \<Rightarrow> dom \<Rightarrow> bool \<times> dom" where
  "validateSSNField input_element error_message error_on_blank d =
     bindValidationError input_element (ssnValid (val d input_element) error_on_blank)
       error_message d"

definition validatePhoneField :: "node \<Rightarrow> string \<Rightarrow> bool \<Rightarrow> dom \<Rightarrow> js_error + bool \<times> dom" where
  "validatePhoneField input_element error_message error_on_blank d =
     (case phoneValid (val d input_element) error_on_blank of
        Inl e \<Rightarrow> Inl e
      | Inr valid \<Rightarrow> Inr (bindValidationError input_element valid error_message d))"

definition validateEmailField :: "node \<Rightarrow> string \<Rightarrow> bool \<Rightarrow> dom \<Rightarrow> bool \<times> dom" where
  "validateEmailField input_element error_message error_on_blank d =
     bindValidationError input_element (emailValid (val d input_element) error_on_blank)
       error_message d"

definition validateZipField :: "node \<Rightarrow> string \<Rightarrow> bool \<Rightarrow> dom \<Rightarrow> bool \<times> dom" where
  "validateZipField input_element error_message error_on_blank d =
     (let rules =
            [containsOnlyNumeric (val d input_element),
             lengthValid (val d input_element) (Some 5) (Some 5) error_on_blank]
      in bindFieldValidationArray input_element rules (Message error_message) d)"

definition validatePasswordField :: "node \<Rightarrow> node \<Rightarrow> string \<Rightarrow> dom \<Rightarrow> bool \<times> dom" where
  "validatePasswordField input_element user_id_element error_message d =
     (let rules =
            [lengthValid (val d input_element) (Some 8) (Some 128) True,
             containsLowerAndUppercase (val d input_element),
             containsNumber (val d input_element),
             doesNotContainValue (val d user_id_element) (val d input_element) False]
      in bindFieldValidationArray input_element rules (Message error_message) d)"

definition validateRequiredField :: "node \<Rightarrow> string \<Rightarrow> dom \<Rightarrow> bool \<times> dom" where
  "validateRequiredField field error_message d =
     bindValidationError field (fieldNotEmpty (val d field)) error_message d"

text \<open>
  \<^verbatim>\<open>allFieldsEmpty\<close> and \<^verbatim>\<open>NotEmptyIfAnyFieldsNotEmpty\<close> of drupalValidatorBasics.js
  read the values of a list of fields. The \<^verbatim>\<open>each\<close> loop stops at the first field
  that is not empty.
\<close>

fun allFieldsEmpty_each :: "dom \<Rightarrow> node list \<Rightarrow> bool \<Rightarrow> bool" where
  "allFieldsEmpty_each d [] is_empty = is_empty"
| "allFieldsEmpty_each d (this # rest) is_empty =
     (if fieldNotEmpty (val d this) = True then False
      else allFieldsEmpty_each d rest is_empty)"

definition allFieldsEmpty :: "dom \<Rightarrow> node list \<Rightarrow> bool" where
  "allFieldsEmpty d all_fields = allFieldsEmpty_each d all_fields True"

definition NotEmptyIfAnyFieldsNotEmpty :: "dom \<Rightarrow> node \<Rightarrow> node list \<Rightarrow> bool" where
  "NotEmptyIfAnyFieldsNotEmpty d field all_fields0 =
     (let all_fields = filter (\<lambda>value. value \<noteq> field) all_fields0
      in if allFieldsEmpty d all_fields = False \<and> fieldNotEmpty (val d field) = False
         then False else True)"

definition validateRequiredOneForAllField :: "node \<Rightarrow> node list \<Rightarrow> string \<Rightarrow> dom \<Rightarrow> bool \<times> dom" where
  "validateRequiredOneForAllField field all_fields error_message d =
     bindValidationError field (NotEmptyIfAnyFieldsNotEmpty d field all_fields) error_message d"


section \<open>Layer 2 of the example (exampleValidator.js)\<close>

definition handleZipField :: "node \<Rightarrow> bool \<Rightarrow> bool \<Rightarrow> dom \<Rightarrow> bool \<times> dom" where
  "handleZipField field error_on_blank required d0 =
     (let (zip_ok, d1) = validateZipField field ''Incorrect Format'' error_on_blank d0;
          validation_array = [zip_ok];
          (validation_array, d2) =
            (if required = True
             then (let (required_ok, d) = validateRequiredField field ''This field is required'' d1
                   in (validation_array @ [required_ok], d))
             else (validation_array, d1))
      in bindFieldValidationArray field validation_array (Flag True) d2)"

definition handleSSNField :: "node \<Rightarrow> bool \<Rightarrow> dom \<Rightarrow> bool \<times> dom" where
  "handleSSNField element error_on_blank d0 =
     (let (ssn_ok, d1) =
            validateSSNField element ''You entered the incorrect format'' error_on_blank d0
      in bindFieldValidationArray element [ssn_ok] (Flag True) d1)"

definition handleZipAllForOneField :: "node \<Rightarrow> node list \<Rightarrow> dom \<Rightarrow> bool \<times> dom" where
  "handleZipAllForOneField field all_fields d0 =
     (let (zip_ok, d1) = validateZipField field ''Incorrect Format'' False d0;
          (required_ok, d2) =
            validateRequiredOneForAllField field all_fields ''Required to complete address'' d1;
          validation_array = [zip_ok, required_ok]
      in bindFieldValidationArray field validation_array (Flag True) d2)"

definition handlePhoneField :: "node \<Rightarrow> bool \<Rightarrow> bool \<Rightarrow> dom \<Rightarrow> js_error + bool \<times> dom" where
  "handlePhoneField field error_on_blank required d0 =
     (case validatePhoneField field ''Incorrect Format'' error_on_blank d0 of
        Inl e \<Rightarrow> Inl e
      | Inr (phone_ok, d1) \<Rightarrow>
          let validation_array = [phone_ok];
              (validation_array, d2) =
                (if required = True
                 then (let (required_ok, d) = validateRequiredField field ''Field is required'' d1
                       in (validation_array @ [required_ok], d))
                 else (validation_array, d1))
          in Inr (bindFieldValidationArray field validation_array (Flag True) d2))"

definition handleEmailField :: "node \<Rightarrow> bool \<Rightarrow> dom \<Rightarrow> bool \<times> dom" where
  "handleEmailField field error_on_blank d0 =
     (let (email_ok, d1) = validateEmailField field ''Incorrect Format'' error_on_blank d0;
          (required_ok, d2) = validateRequiredField field ''Field is required'' d1
      in bindFieldValidationArray field [email_ok, required_ok] (Flag True) d2)"


section \<open>A small page to run the functions on\<close>

text \<open>
  One form (element 0) with two form items (1 and 5). The first holds a label wrapper
  (2) with the label (3) of the zip input (4); the second holds the phone input (6).
  \<open>example_errors\<close> is the same page with both inputs in error.
\<close>

definition example_page :: dom where
  "example_page =
     \<lparr>nodes = [0, 1, 2, 3, 4, 5, 6],
      ancestors = (\<lambda>n. if n = 1 \<or> n = 5 then [0] else if n = 2 \<or> n = 4 then [1, 0]
                         else if n = 3 then [2, 1, 0] else if n = 6 then [5, 0] else []),
      tag = (\<lambda>n. if n = 0 then ''form'' else if n = 3 then ''label''
                   else if n = 4 \<or> n = 6 then ''input'' else ''div''),
      classes = (\<lambda>n. if n = 1 \<or> n = 5 then [''form-item'']
                       else if n = 2 then [''form-item-label''] else []),
      attr_id = (\<lambda>n. if n = 4 then Some ''edit-zip''
                       else if n = 6 then Some ''edit-phone'' else None),
      attr_for = (\<lambda>n. if n = 3 then Some ''edit-zip'' else None),
      val = (\<lambda>n. []),
      html = (\<lambda>n. [])\<rparr>"

definition example_errors :: dom where
  "example_errors = addClass ''form-error-state'' [0] (addClass ''error'' [4, 6] example_page)"



definition with_values :: "string \<Rightarrow> string \<Rightarrow> dom \<Rightarrow> dom" where
  "with_values zip_value phone_value d =
     d\<lparr>val := (\<lambda>n. if n = 4 then zip_value else if n = 6 then phone_value else [])\<rparr>"


section \<open>Properties of the rule evaluator\<close>

lemma ruleset_loop_halt:
  "ruleset_loop R return_errors True acc = None \<longleftrightarrow> (\<exists>r \<in> set R. \<not> r)"
  by (induction R arbitrary: acc) (auto split: prod.splits)

lemma ruleset_loop_halt_errors:
  "ruleset_loop R False True (arr, errs) = Some (arr', errs') \<Longrightarrow> errs' = errs"
  by (induction R arbitrary: arr) (auto split: if_splits)

lemma ruleset_loop_no_halt:
  "ruleset_loop R return_errors False (arr, errs) =
     Some (arr @ R, if return_errors then errs else errs \<or> (\<exists>r \<in> set R. \<not> r))"
  by (induction R arbitrary: arr errs) auto

lemma first_false_index:
  "(\<exists>r \<in> set R. \<not> r) \<longleftrightarrow> (\<exists>i < length R. \<not> R ! i \<and> (\<forall>j < i. R ! j))"
proof
  assume "\<exists>r \<in> set R. \<not> r"
  then have ex: "\<exists>i. i < length R \<and> \<not> R ! i"
    by (metis in_set_conv_nth)
  define i where "i = (LEAST i. i < length R \<and> \<not> R ! i)"
  have "i < length R \<and> \<not> R ! i"
    unfolding i_def using ex by (rule LeastI_ex)
  moreover have "R ! j" if "j < i" for j
  proof (rule ccontr)
    assume "\<not> R ! j"
    moreover have "j < length R"
      using that \<open>i < length R \<and> \<not> R ! i\<close> by simp
    ultimately have "i \<le> j"
      unfolding i_def by (intro Least_le) simp
    with that show False by simp
  qed
  ultimately show "\<exists>i < length R. \<not> R ! i \<and> (\<forall>j < i. R ! j)"
    by blast
next
  assume "\<exists>i < length R. \<not> R ! i \<and> (\<forall>j < i. R ! j)"
  then show "\<exists>r \<in> set R. \<not> r"
    using nth_mem by blast
qed

lemma short_circuit_verdict:
  "runValidationRuleset R False True = Verdict (\<forall>r \<in> set R. r)"
proof (cases "ruleset_loop R False True ([], False)")
  case None
  then have "\<exists>r \<in> set R. \<not> r"
    by (simp add: ruleset_loop_halt)
  with None show ?thesis
    by (cases R) (auto simp: runValidationRuleset_def)
next
  case (Some p)
  obtain arr errs where p: "p = (arr, errs)" by (cases p)
  have "errs = False"
    using Some p ruleset_loop_halt_errors by blast
  moreover have "\<forall>r \<in> set R. r"
    using Some ruleset_loop_halt [of R False "([], False)"] by auto
  ultimately show ?thesis
    using Some p by (cases R) (auto simp: runValidationRuleset_def)
qed

text \<open>
  C1. In short-circuit mode (\<^verbatim>\<open>return_errors = false\<close>, \<^verbatim>\<open>halt_on_error = true\<close>) the
  evaluator answers \<^verbatim>\<open>false\<close> exactly when some entry is false and every entry before
  it is true, answers \<^verbatim>\<open>true\<close> exactly when every entry is true, and answers
  \<^verbatim>\<open>true\<close> for the empty sequence.
\<close>

theorem C1_short_circuit:
  "(runValidationRuleset R False True = Verdict False
      \<longleftrightarrow> (\<exists>i < length R. \<not> R ! i \<and> (\<forall>j < i. R ! j)))
   \<and> (runValidationRuleset R False True = Verdict True \<longleftrightarrow> (\<forall>r \<in> set R. r))
   \<and> runValidationRuleset [] False True = Verdict True"
proof -
  have "runValidationRuleset R False True = Verdict False \<longleftrightarrow> (\<exists>r \<in> set R. \<not> r)"
    by (simp add: short_circuit_verdict)
  then have "runValidationRuleset R False True = Verdict False
      \<longleftrightarrow> (\<exists>i < length R. \<not> R ! i \<and> (\<forall>j < i. R ! j))"
    by (simp only: first_false_index)
  moreover have "runValidationRuleset R False True = Verdict True \<longleftrightarrow> (\<forall>r \<in> set R. r)"
    by (simp add: short_circuit_verdict)
  moreover have "runValidationRuleset [] False True = Verdict True"
    by (simp add: runValidationRuleset_def)
  ultimately show ?thesis by blast
qed

theorem C1_short_circuit_witness:
  "runValidationRuleset [True, False, True] False True = Verdict False
   \<and> runValidationRuleset [True, False, True] False True \<noteq> Verdict True
   \<and> runValidationRuleset [] False True = Verdict True"
proof -
  have "\<exists>i < length [True, False, True]. \<not> [True, False, True] ! i \<and> (\<forall>j < i. [True, False, True] ! j)"
    by (rule exI [of _ 1]) simp
  then show ?thesis
    using C1_short_circuit [of "[True, False, True]"] by simp
qed

text \<open>
  C2. With short-circuit disabled and a boolean requested (\<^verbatim>\<open>return_errors = false\<close>,
  \<^verbatim>\<open>halt_on_error = false\<close>) the evaluator answers with the conjunction of the entries.
\<close>

theorem C2_aggregated_all:
  "runValidationRuleset R False False = Verdict (\<forall>r \<in> set R. r)"
  by (cases R) (auto simp: runValidationRuleset_def ruleset_loop_no_halt)

theorem C2_aggregated_all_witness:
  "runValidationRuleset [True, True] False False = Verdict True
   \<and> runValidationRuleset [True, False, True] False False = Verdict False"
  using C2_aggregated_all [of "[True, True]"] C2_aggregated_all [of "[True, False, True]"]
  by simp

text \<open>
  C5. In raw-sequence mode (\<^verbatim>\<open>return_errors = true\<close>), when \<^verbatim>\<open>halt_on_error\<close> is not
  enabled as well, the evaluator returns the sequence it was given, entry for entry,
  and the empty sequence for the empty one.
\<close>

theorem C5_raw_sequence:
  "halt_on_error \<noteq> True \<Longrightarrow> runValidationRuleset R True halt_on_error = Results R"
  by (cases R) (auto simp: runValidationRuleset_def ruleset_loop_no_halt)

theorem C5_raw_sequence_witness:
  "runValidationRuleset [True, False, True] True False = Results [True, False, True]
   \<and> runValidationRuleset [] True False = Results []"
  using C5_raw_sequence [of False "[True, False, True]"] C5_raw_sequence [of False "[]"]
  by simp


section \<open>Properties of the scope error tracker\<close>

lemma count_fold:
  "fold (\<lambda>value count. if value \<noteq> element then count + 1 else count) xs (k :: nat)
     = k + length (filter (\<lambda>value. value \<noteq> element) xs)"
  by (induction xs arbitrary: k) auto

lemma otherErrorsExist_verdict:
  "fst (otherErrorsExist f d) \<longleftrightarrow>
     (\<exists>g \<in> set (nodes d). g \<noteq> f \<and> tag d g = ''input'' \<and> ''error'' \<in> set (classes d g)
        \<and> (\<exists>S \<in> set (closest d (Tag ''form'') [f]). S \<in> set (ancestors d g)))"
  by (auto simp: otherErrorsExist_def Let_def count_fold find_in_def list_ex_iff filter_empty_conv)




text \<open>
  C9. \<^verbatim>\<open>otherErrorsExist\<close> is a query: whatever the page and the excluded field, the
  page it leaves is the page it was given, error classes and all.
\<close>

theorem C9_query_only:
  "snd (otherErrorsExist element d) = d"
  by (simp add: otherErrorsExist_def Let_def)

theorem C9_query_only_witness:
  "snd (otherErrorsExist 4 example_errors) = example_errors
   \<and> fst (otherErrorsExist 4 example_errors) = True"
proof -
  have "fst (otherErrorsExist 4 example_errors) = True"
    by code_simp
  then show ?thesis
    using C9_query_only [of 4 example_errors] by simp
qed


section \<open>Properties of the raw validation functions\<close>

lemma recover_clears_field: "''error'' \<notin> set (classes (recoverErrorState f d) f)"
  by (simp add: recoverErrorState_def otherErrorsExist_def Let_def removeClass_def set_html_def)

lemma containsOnlyNumeric_blank: "containsOnlyNumeric [] = True"
  by code_simp

lemma all_pass_message:
  "\<forall>r \<in> set rules. r \<Longrightarrow> policy = Message m \<or> policy = Flag False \<Longrightarrow>
     bindFieldValidationArray field rules policy d = (True, recoverErrorState field d)"
  by (auto simp: bindFieldValidationArray_def short_circuit_verdict)

text \<open>
  C6. With \<^verbatim>\<open>error_on_blank = false\<close> the empty string passes the length, phone,
  email and SSN rules, whatever the bounds of the length rule. A zip field with an
  empty value and \<^verbatim>\<open>error_on_blank = false\<close> passes \<^verbatim>\<open>validateZipField\<close>: the
  result is \<^verbatim>\<open>true\<close>, the page is the one \<^verbatim>\<open>recoverErrorState\<close> leaves, and the
  field carries no error class in it.
\<close>

theorem C6_blank_passes:
  "lengthValid [] min_len max_len False = True
   \<and> phoneValid [] False = Inr True
   \<and> emailValid [] False = True
   \<and> ssnValid [] False = True
   \<and> (val d input_element = [] \<longrightarrow>
        validateZipField input_element error_message False d
          = (True, recoverErrorState input_element d)
        \<and> ''error'' \<notin> set (classes (recoverErrorState input_element d) input_element))"
proof -
  have "lengthValid [] min_len max_len False = True"
    by (simp add: lengthValid_def)
  moreover have "phoneValid [] False = Inr True"
    by (simp add: phoneValid_def)
  moreover have "emailValid [] False = True"
    by (simp add: emailValid_def)
  moreover have "ssnValid [] False = True"
    by (simp add: ssnValid_def)
  moreover have "validateZipField input_element error_message False d
      = (True, recoverErrorState input_element d)" if "val d input_element = []"
    using that
    by (simp add: validateZipField_def containsOnlyNumeric_blank lengthValid_def all_pass_message)
  ultimately show ?thesis
    using recover_clears_field by blast
qed

theorem C6_blank_passes_witness:
  "val example_errors 4 = []
   \<and> validateZipField 4 ''Incorrect Format'' False example_errors
       = (True, recoverErrorState 4 example_errors)
   \<and> ''error'' \<in> set (classes example_errors 4)
   \<and> ''error'' \<notin> set (classes (recoverErrorState 4 example_errors) 4)
   \<and> lengthValid [] (Some 5) (Some 5) False = True"
proof -
  have "val example_errors 4 = [] \<and> ''error'' \<in> set (classes example_errors 4)"
    by code_simp
  then show ?thesis
    using C6_blank_passes [of "Some 5" "Some 5" example_errors 4 "''Incorrect Format''"]
    by blast
qed

lemma indexOf_from_sublist:
  "0 \<le> i \<Longrightarrow> indexOf_from h n i = - 1 \<longleftrightarrow> \<not> sublist n h"
  by (induction h arbitrary: i) (auto simp: sublist_Cons_right)

lemma password_rules_lower:
  "lengthValid ''abc12345'' (Some 8) (Some 128) True = True
   \<and> containsLowerAndUppercase ''abc12345'' = False
   \<and> containsNumber ''abc12345'' = True
   \<and> doesNotContainValue ''abc'' ''abc12345'' False = False"
  by code_simp

lemma password_rules_mixed:
  "lengthValid ''Abc12345'' (Some 8) (Some 128) True = True
   \<and> containsLowerAndUppercase ''Abc12345'' = True
   \<and> containsNumber ''Abc12345'' = True
   \<and> doesNotContainValue ''Abc12345xyz'' ''Abc12345'' False = True"
  by code_simp

lemma message_policy_result:
  "bindFieldValidationArray field rules (Message m) d =
     (if \<forall>r \<in> set rules. r then (True, recoverErrorState field d)
      else (False, setErrorState field m d))"
  by (simp add: bindFieldValidationArray_def short_circuit_verdict)

lemma containment_fails_iff:
  assumes "userId \<noteq> []"
  shows "doesNotContainValue userId password error_on_blank = False
      \<longleftrightarrow> (\<exists>before after. password = before @ userId @ after)"
  using assms indexOf_from_sublist [of 0 password userId]
  by (simp add: doesNotContainValue_def indexOf_def sublist_def)

lemma validatePasswordField_result:
  "validatePasswordField input_element user_id_element error_message d =
     (if lengthValid (val d input_element) (Some 8) (Some 128) True
         \<and> containsLowerAndUppercase (val d input_element)
         \<and> containsNumber (val d input_element)
         \<and> doesNotContainValue (val d user_id_element) (val d input_element) False
      then (True, recoverErrorState input_element d)
      else (False, setErrorState input_element error_message d))"
  by (simp add: validatePasswordField_def message_policy_result)

lemma password_rules_contained:
  "lengthValid ''Xyzabc123'' (Some 8) (Some 128) True = True
   \<and> containsLowerAndUppercase ''Xyzabc123'' = True
   \<and> containsNumber ''Xyzabc123'' = True"
  by code_simp

text \<open>
  C7. The containment rule of the password looks for the user id inside the password:
  for a user id that is not empty it fails exactly when the password is
  \<open>before @ userId @ after\<close> for some \<open>before\<close> and \<open>after\<close>.
  \<^verbatim>\<open>validatePasswordField\<close> passes exactly when the length, case and digit rules and
  this rule pass, with the value of the user id field as the needle and the value of
  the password field as the haystack. So with a user id that is not empty, a password
  that contains the user id fails, and a password that passes the other three rules
  fails exactly when it contains the user id; a user id that contains the password
  does not fail it. The password \<^verbatim>\<open>abc12345\<close> with the user id \<^verbatim>\<open>abc\<close> fails (it
  has no upper case letter); the password \<^verbatim>\<open>Abc12345\<close> with the user id
  \<^verbatim>\<open>Abc12345xyz\<close> passes.
\<close>

theorem C7_directional_containment:
  "(userId \<noteq> [] \<longrightarrow>
      (doesNotContainValue userId password error_on_blank = False
         \<longleftrightarrow> (\<exists>before after. password = before @ userId @ after)))
   \<and> validatePasswordField input_element user_id_element error_message d =
       (if lengthValid (val d input_element) (Some 8) (Some 128) True
           \<and> containsLowerAndUppercase (val d input_element)
           \<and> containsNumber (val d input_element)
           \<and> doesNotContainValue (val d user_id_element) (val d input_element) False
        then (True, recoverErrorState input_element d)
        else (False, setErrorState input_element error_message d))
   \<and> (val d user_id_element \<noteq> []
        \<and> (\<exists>before after. val d input_element = before @ val d user_id_element @ after) \<longrightarrow>
        validatePasswordField input_element user_id_element error_message d
          = (False, setErrorState input_element error_message d))
   \<and> (val d user_id_element \<noteq> []
        \<and> lengthValid (val d input_element) (Some 8) (Some 128) True
        \<and> containsLowerAndUppercase (val d input_element)
        \<and> containsNumber (val d input_element) \<longrightarrow>
        (fst (validatePasswordField input_element user_id_element error_message d) = False
           \<longleftrightarrow> (\<exists>before after. val d input_element = before @ val d user_id_element @ after)))
   \<and> doesNotContainValue ''Abc12345xyz'' ''Abc12345'' False = True
   \<and> (val d input_element = ''abc12345'' \<and> val d user_id_element = ''abc'' \<longrightarrow>
        containsLowerAndUppercase (val d input_element) = False
        \<and> fst (validatePasswordField input_element user_id_element error_message d) = False)
   \<and> (val d input_element = ''Abc12345'' \<and> val d user_id_element = ''Abc12345xyz'' \<longrightarrow>
        fst (validatePasswordField input_element user_id_element error_message d) = True)"
proof -
  have rule: "userId \<noteq> [] \<longrightarrow>
      (doesNotContainValue userId password error_on_blank = False
         \<longleftrightarrow> (\<exists>before after. password = before @ userId @ after))"
    using containment_fails_iff by blast
  have result: "validatePasswordField input_element user_id_element error_message d =
       (if lengthValid (val d input_element) (Some 8) (Some 128) True
           \<and> containsLowerAndUppercase (val d input_element)
           \<and> containsNumber (val d input_element)
           \<and> doesNotContainValue (val d user_id_element) (val d input_element) False
        then (True, recoverErrorState input_element d)
        else (False, setErrorState input_element error_message d))"
    by (rule validatePasswordField_result)
  have contained: "validatePasswordField input_element user_id_element error_message d
      = (False, setErrorState input_element error_message d)"
    if "val d user_id_element \<noteq> []"
      "\<exists>before after. val d input_element = before @ val d user_id_element @ after"
  proof -
    have "doesNotContainValue (val d user_id_element) (val d input_element) False = False"
      using that containment_fails_iff [of "val d user_id_element" "val d input_element" False]
      by blast
    then show ?thesis
      by (simp add: validatePasswordField_result)
  qed
  have decides: "fst (validatePasswordField input_element user_id_element error_message d) = False
      \<longleftrightarrow> (\<exists>before after. val d input_element = before @ val d user_id_element @ after)"
    if "val d user_id_element \<noteq> []"
      "lengthValid (val d input_element) (Some 8) (Some 128) True"
      "containsLowerAndUppercase (val d input_element)"
      "containsNumber (val d input_element)"
  proof -
    have "fst (validatePasswordField input_element user_id_element error_message d)
        = doesNotContainValue (val d user_id_element) (val d input_element) False"
      using that by (simp add: validatePasswordField_result)
    then show ?thesis
      using containment_fails_iff [OF that(1), of "val d input_element" False] by simp
  qed
  have lower: "containsLowerAndUppercase (val d input_element) = False
      \<and> fst (validatePasswordField input_element user_id_element error_message d) = False"
    if "val d input_element = ''abc12345''" "val d user_id_element = ''abc''"
    using that password_rules_lower by (simp add: validatePasswordField_result)
  have mixed: "fst (validatePasswordField input_element user_id_element error_message d) = True"
    if "val d input_element = ''Abc12345''" "val d user_id_element = ''Abc12345xyz''"
    using that password_rules_mixed by (simp add: validatePasswordField_result)
  have example: "doesNotContainValue ''Abc12345xyz'' ''Abc12345'' False = True"
    using password_rules_mixed by blast
  show ?thesis
    using rule result contained decides lower mixed example by blast
qed

theorem C7_directional_containment_witness:
  "doesNotContainValue ''abc'' ''Xyzabc123'' False = False
   \<and> fst (validatePasswordField 4 6 ''Invalid password''
            (with_values ''Xyzabc123'' ''abc'' example_page)) = False
   \<and> fst (validatePasswordField 4 6 ''Invalid password''
            (with_values ''Xyzabc123'' ''abd'' example_page)) = True
   \<and> fst (validatePasswordField 4 6 ''Invalid password''
            (with_values ''Xyzabc123'' ''Xyzabc123456'' example_page)) = True
   \<and> fst (validatePasswordField 4 6 ''Invalid password''
            (with_values ''abc12345'' ''abc'' example_page)) = False
   \<and> fst (validatePasswordField 4 6 ''Invalid password''
            (with_values ''Abc12345'' ''Abc12345xyz'' example_page)) = True"
proof -
  have parts: "''Xyzabc123'' = ''Xyz'' @ ''abc'' @ ''123''"
    by simp
  have inside: "\<exists>before after. ''Xyzabc123'' = before @ ''abc'' @ after"
    using parts by blast
  have at_fields: "val (with_values p u example_page) 4 = p
      \<and> val (with_values p u example_page) 6 = u" for p u
    by (simp add: with_values_def)
  have other: "doesNotContainValue ''abd'' ''Xyzabc123'' False = True
      \<and> doesNotContainValue ''Xyzabc123456'' ''Xyzabc123'' False = True"
    by code_simp
  have "doesNotContainValue ''abc'' ''Xyzabc123'' False = False"
    using C7_directional_containment [where userId = "''abc''" and password = "''Xyzabc123''"
        and error_on_blank = False] inside
    by simp
  moreover have "fst (validatePasswordField 4 6 ''Invalid password''
      (with_values ''Xyzabc123'' ''abc'' example_page)) = False"
    using C7_directional_containment [where userId = "''abc''"
        and password = "''Xyzabc123''" and error_on_blank = False
        and d = "with_values ''Xyzabc123'' ''abc'' example_page"
        and input_element = 4 and user_id_element = 6
        and error_message = "''Invalid password''"]
      inside password_rules_contained
    by (simp add: at_fields)
  moreover have "fst (validatePasswordField 4 6 ''Invalid password''
      (with_values ''Xyzabc123'' ''abd'' example_page)) = True"
    using C7_directional_containment [where userId = "''abc''"
        and password = "''Xyzabc123''" and error_on_blank = False
        and d = "with_values ''Xyzabc123'' ''abd'' example_page"
        and input_element = 4 and user_id_element = 6
        and error_message = "''Invalid password''"]
      other password_rules_contained
    by (simp add: at_fields)
  moreover have "fst (validatePasswordField 4 6 ''Invalid password''
      (with_values ''Xyzabc123'' ''Xyzabc123456'' example_page)) = True"
    using C7_directional_containment [where userId = "''abc''"
        and password = "''Xyzabc123''" and error_on_blank = False
        and d = "with_values ''Xyzabc123'' ''Xyzabc123456'' example_page"
        and input_element = 4 and user_id_element = 6
        and error_message = "''Invalid password''"]
      other password_rules_contained
    by (simp add: at_fields)
  moreover have "fst (validatePasswordField 4 6 ''Invalid password''
      (with_values ''abc12345'' ''abc'' example_page)) = False"
    using C7_directional_containment [where userId = "''abc''"
        and password = "''Xyzabc123''" and error_on_blank = False
        and d = "with_values ''abc12345'' ''abc'' example_page"
        and input_element = 4 and user_id_element = 6
        and error_message = "''Invalid password''"]
      at_fields [of "''abc12345''" "''abc''"]
    by blast
  moreover have "fst (validatePasswordField 4 6 ''Invalid password''
      (with_values ''Abc12345'' ''Abc12345xyz'' example_page)) = True"
    using C7_directional_containment [where userId = "''abc''"
        and password = "''Xyzabc123''" and error_on_blank = False
        and d = "with_values ''Abc12345'' ''Abc12345xyz'' example_page"
        and input_element = 4 and user_id_element = 6
        and error_message = "''Invalid password''"]
      at_fields [of "''Abc12345''" "''Abc12345xyz''"]
    by blast
  ultimately show ?thesis
    by blast
qed

lemma phone_same_digit_rules:
  "test_whole numericRegex ''111-111-1111'' = True
   \<and> length (strip_dashes ''111-111-1111'') = 10
   \<and> sameCharRegExp (Some CHR ''1'') = Inr (one_or_more (lit CHR ''1''))
   \<and> replace_whole (one_or_more (lit CHR ''1'')) [] (strip_dashes ''111-111-1111'') = []"
  by code_simp

text \<open>
  C8. For the value \<^verbatim>\<open>111-111-1111\<close> the format pattern matches, the pattern built
  from the first character matches the digits as well, so that nothing is left of them
  and the third rule is false: \<^verbatim>\<open>phoneValid\<close> returns \<^verbatim>\<open>false\<close>, and
  \<^verbatim>\<open>validatePhoneField\<close> fails and sets the error.
\<close>

theorem C8_phone_same_digit:
  "test_whole numericRegex ''111-111-1111'' = True
   \<and> sameCharRegExp (Some CHR ''1'') = Inr (one_or_more (lit CHR ''1''))
   \<and> replace_whole (one_or_more (lit CHR ''1'')) [] (strip_dashes ''111-111-1111'') = []
   \<and> phoneValid ''111-111-1111'' error_on_blank = Inr False
   \<and> (val d input_element = ''111-111-1111'' \<longrightarrow>
        validatePhoneField input_element error_message error_on_blank d
          = Inr (False, setErrorState input_element error_message d))"
proof -
  have "phoneValid ''111-111-1111'' error_on_blank = Inr False"
    using phone_same_digit_rules by (simp add: phoneValid_def)
  then show ?thesis
    using phone_same_digit_rules
    by (simp add: validatePhoneField_def bindValidationError_def)
qed

theorem C8_phone_same_digit_witness:
  "val (with_values [] ''111-111-1111'' example_page) 6 = ''111-111-1111''
   \<and> validatePhoneField 6 ''Incorrect Format'' False (with_values [] ''111-111-1111'' example_page)
       = Inr (False, setErrorState 6 ''Incorrect Format''
                       (with_values [] ''111-111-1111'' example_page))
   \<and> phoneValid ''111-111-1111'' False = Inr False"
proof -
  have "val (with_values [] ''111-111-1111'' example_page) 6 = ''111-111-1111''"
    by (simp add: with_values_def)
  then show ?thesis
    using C8_phone_same_digit [of False "with_values [] ''111-111-1111'' example_page" 6
        "''Incorrect Format''"]
    by blast
qed


section \<open>Properties of the binding of verdicts to the error state\<close>

lemma closest_frame:
  assumes "ancestors a = ancestors b" and "\<And>n. matches a sel n = matches b sel n"
  shows "closest a sel ns = closest b sel ns"
proof -
  have "matches a sel = matches b sel"
    using assms(2) by blast
  then show ?thesis
    by (simp add: closest_def assms(1))
qed

lemma otherErrorsExist_frame:
  assumes "nodes a = nodes b" and "ancestors a = ancestors b" and "tag a = tag b"
    and "\<And>n. ''error'' \<in> set (classes a n) \<longleftrightarrow> ''error'' \<in> set (classes b n)"
  shows "fst (otherErrorsExist f a) = fst (otherErrorsExist f b)"
proof -
  have "closest a (Tag ''form'') [f] = closest b (Tag ''form'') [f]"
    by (rule closest_frame) (simp_all add: assms)
  then show ?thesis
    unfolding otherErrorsExist_verdict by (simp add: assms)
qed

lemma message_of_frame:
  assumes "nodes a = nodes b" and "ancestors a = ancestors b" and "classes a = classes b"
  shows "message_of a f = message_of b f"
proof -
  have "matches a (Class c) = matches b (Class c)" for c
    by (rule ext) (simp add: assms)
  then show ?thesis
    by (simp add: message_of_def siblings_def closest_def assms)
qed

lemma recover_message:
  assumes "n \<in> set (message_of (recoverErrorState f d) f)"
  shows "html (recoverErrorState f d) n = []"
proof -
  have "\<exists>d4. recoverErrorState f d = set_html [] (message_of d4 f) d4"
    by (auto simp: recoverErrorState_def Let_def otherErrorsExist_def)
  then obtain d4 where d': "recoverErrorState f d = set_html [] (message_of d4 f) d4"
    by blast
  have "message_of (set_html [] (message_of d4 f) d4) f = message_of d4 f"
    by (rule message_of_frame) (simp_all add: set_html_def)
  with assms show ?thesis
    by (simp add: d' set_html_def)
qed

lemma recover_scope:
  fixes f d
  defines "d' \<equiv> recoverErrorState f d"
  shows "(fst (otherErrorsExist f d') \<longrightarrow>
            (\<forall>n. ''form-error-state'' \<in> set (classes d' n)
                    \<longleftrightarrow> ''form-error-state'' \<in> set (classes d n)))
       \<and> (\<not> fst (otherErrorsExist f d') \<longrightarrow>
            (\<forall>n \<in> set (closest d (Class ''form-error-state'') [f]).
                ''form-error-state'' \<notin> set (classes d' n)))"
proof -
  define d1 where "d1 = removeClass ''error'' [f] d"
  define d2 where "d2 = removeClass ''error'' (label_of d1 f) d1"
  define d4 where "d4 = (if fst (otherErrorsExist f d2) = False
      then removeClass ''form-error-state'' (closest d2 (Class ''form-error-state'') [f]) d2
      else d2)"
  have d': "d' = set_html [] (message_of d4 f) d4"
    by (simp add: d'_def recoverErrorState_def Let_def d1_def d2_def d4_def otherErrorsExist_def)
  have fes2: "''form-error-state'' \<in> set (classes d2 n)
      \<longleftrightarrow> ''form-error-state'' \<in> set (classes d n)" for n
    by (simp add: d2_def d1_def removeClass_def)
  have struct2: "ancestors d2 = ancestors d" "nodes d2 = nodes d" "tag d2 = tag d"
    by (simp_all add: d2_def d1_def removeClass_def)
  have cl: "closest d2 (Class ''form-error-state'') [f]
      = closest d (Class ''form-error-state'') [f]"
    by (rule closest_frame) (simp_all add: struct2 fes2)
  have same: "fst (otherErrorsExist f d') = fst (otherErrorsExist f d2)"
    by (rule otherErrorsExist_frame) (simp_all add: d' d4_def set_html_def removeClass_def)
  show ?thesis
  proof (cases "fst (otherErrorsExist f d2)")
    case True
    then have "classes d' = classes d2"
      by (simp add: d' d4_def set_html_def)
    with True same fes2 show ?thesis by simp
  next
    case False
    then have "classes d' n = (if n \<in> set (closest d (Class ''form-error-state'') [f])
        then removeAll ''form-error-state'' (classes d2 n) else classes d2 n)" for n
      by (simp add: d' d4_def set_html_def removeClass_def cl)
    with False same show ?thesis by simp
  qed
qed

text \<open>
  C3, as the code has it. When every rule passes and \<^verbatim>\<open>bindFieldValidationArray\<close> was
  given a message string (or \<^verbatim>\<open>false\<close>), it returns \<^verbatim>\<open>true\<close> and leaves the page
  that \<^verbatim>\<open>recoverErrorState\<close> leaves: the field has lost its error class, its message
  boxes are empty, and the class \<^verbatim>\<open>form-error-state\<close> is where it was if
  \<^verbatim>\<open>otherErrorsExist\<close> finds other errors, and is gone from the nearest element that
  carried it otherwise. \<^verbatim>\<open>bindValidationError\<close> with a passing verdict returns
  \<^verbatim>\<open>true\<close> and leaves the page as it is.
\<close>

theorem C3_pass_recovers:
  assumes "\<forall>r \<in> set rules. r" and "policy = Message m \<or> policy = Flag False"
  shows "bindFieldValidationArray field rules policy d = (True, recoverErrorState field d)
       \<and> ''error'' \<notin> set (classes (recoverErrorState field d) field)
       \<and> (\<forall>n \<in> set (message_of (recoverErrorState field d) field).
            html (recoverErrorState field d) n = [])
       \<and> (fst (otherErrorsExist field (recoverErrorState field d)) \<longrightarrow>
            (\<forall>n. ''form-error-state'' \<in> set (classes (recoverErrorState field d) n)
                    \<longleftrightarrow> ''form-error-state'' \<in> set (classes d n)))
       \<and> (\<not> fst (otherErrorsExist field (recoverErrorState field d)) \<longrightarrow>
            (\<forall>n \<in> set (closest d (Class ''form-error-state'') [field]).
                ''form-error-state'' \<notin> set (classes (recoverErrorState field d) n)))
       \<and> bindValidationError field True error_message d = (True, d)"
proof -
  have "bindFieldValidationArray field rules policy d = (True, recoverErrorState field d)"
    using assms by (rule all_pass_message)
  moreover have "bindValidationError field True error_message d = (True, d)"
    by (simp add: bindValidationError_def)
  ultimately show ?thesis
    using recover_clears_field [of field d] recover_message [of _ field d]
      recover_scope [of field d]
    by blast
qed

theorem C3_pass_recovers_witness:
  "bindFieldValidationArray 4 [True, True] (Message ''Incorrect Format'') example_errors
     = (True, recoverErrorState 4 example_errors)
   \<and> ''error'' \<in> set (classes example_errors 4)
   \<and> ''error'' \<notin> set (classes (recoverErrorState 4 example_errors) 4)
   \<and> fst (otherErrorsExist 4 (recoverErrorState 4 example_errors))
   \<and> ''form-error-state'' \<in> set (classes (recoverErrorState 4 example_errors) 0)
   \<and> \<not> fst (otherErrorsExist 6 (recoverErrorState 6 (recoverErrorState 4 example_errors)))
   \<and> ''form-error-state''
        \<notin> set (classes (recoverErrorState 6 (recoverErrorState 4 example_errors)) 0)"
proof -
  have rules: "\<forall>r \<in> set [True, True]. r"
    by simp
  have policy: "Message ''Incorrect Format'' = Message ''Incorrect Format''
      \<or> Message ''Incorrect Format'' = Flag False"
    by simp
  have first: "''error'' \<in> set (classes example_errors 4)
      \<and> fst (otherErrorsExist 4 (recoverErrorState 4 example_errors))
      \<and> ''form-error-state'' \<in> set (classes example_errors 0)"
    by code_simp
  have second: "\<not> fst (otherErrorsExist 6 (recoverErrorState 6 (recoverErrorState 4 example_errors)))
      \<and> 0 \<in> set (closest (recoverErrorState 4 example_errors) (Class ''form-error-state'') [6])"
    by code_simp
  show ?thesis
    using first second
      C3_pass_recovers [OF rules policy, of 4 example_errors]
      C3_pass_recovers [OF rules policy, of 6 "recoverErrorState 4 example_errors"]
    by blast
qed

text \<open>
  C3 does not hold on the single-rule path: a field in error whose verdict is true
  keeps its error class through \<^verbatim>\<open>bindValidationError\<close>.
\<close>

theorem C3_single_rule_counterexample:
  "fst (bindValidationError 4 True ''Incorrect Format'' example_errors) = True
   \<and> ''error'' \<in> set (classes (snd (bindValidationError 4 True ''Incorrect Format''
                                        example_errors)) 4)"
  by code_simp

text \<open>
  C10. Called with the boolean \<^verbatim>\<open>true\<close> as \<^verbatim>\<open>report_error_message\<close>,
  \<^verbatim>\<open>bindFieldValidationArray\<close> returns \<^verbatim>\<open>false\<close> for every field and every list of
  rule results, also when all of them pass, and the page is left as it was: neither
  \<^verbatim>\<open>recoverErrorState\<close> nor \<^verbatim>\<open>setErrorState\<close> has run. The composites of the
  example call it that way, so each of them returns \<^verbatim>\<open>false\<close> whenever it returns.
\<close>

theorem C10_report_true_returns_false:
  "bindFieldValidationArray field rules (Flag True) d = (False, d)
   \<and> fst (handleSSNField field error_on_blank d) = False
   \<and> fst (handleZipField field error_on_blank required d) = False
   \<and> fst (handleZipAllForOneField field all_fields d) = False
   \<and> fst (handleEmailField field error_on_blank d) = False
   \<and> (case handlePhoneField field error_on_blank required d of
         Inl e \<Rightarrow> e = SyntaxError
       | Inr r \<Rightarrow> fst r = False)"
proof -
  have flag: "bindFieldValidationArray field' rules' (Flag True) d' = (False, d')" for field' rules' d'
    by (simp add: bindFieldValidationArray_def Let_def)
  have "fst (handleSSNField field error_on_blank d) = False"
    by (simp add: handleSSNField_def flag split: prod.splits)
  moreover have "fst (handleZipField field error_on_blank required d) = False"
    by (simp add: handleZipField_def Let_def flag split: prod.splits)
  moreover have "fst (handleZipAllForOneField field all_fields d) = False"
    by (simp add: handleZipAllForOneField_def Let_def flag split: prod.splits)
  moreover have "fst (handleEmailField field error_on_blank d) = False"
    by (simp add: handleEmailField_def flag split: prod.splits)
  moreover have "case handlePhoneField field error_on_blank required d of
         Inl e \<Rightarrow> e = SyntaxError
       | Inr r \<Rightarrow> fst r = False"
    by (cases "validatePhoneField field ''Incorrect Format'' error_on_blank d")
      (auto simp: handlePhoneField_def Let_def flag split: prod.splits intro: js_error.exhaust)
  ultimately show ?thesis
    using flag by blast
qed

theorem C10_report_true_returns_false_witness:
  "bindFieldValidationArray 4 [True, True] (Flag True) example_errors = (False, example_errors)
   \<and> bindFieldValidationArray 4 [True, False] (Flag True) example_page = (False, example_page)
   \<and> fst (handleZipField 4 False False example_errors) = False
   \<and> ''error'' \<in> set (classes example_errors 4)
   \<and> ''error'' \<notin> set (classes (recoverErrorState 4 example_errors) 4)
   \<and> ''error'' \<notin> set (classes example_page 4)
   \<and> ''error'' \<in> set (classes (setErrorState 4 [] example_page) 4)"
proof -
  have "''error'' \<in> set (classes example_errors 4)
      \<and> ''error'' \<notin> set (classes (recoverErrorState 4 example_errors) 4)
      \<and> ''error'' \<notin> set (classes example_page 4)
      \<and> ''error'' \<in> set (classes (setErrorState 4 [] example_page) 4)"
    by code_simp
  then show ?thesis
    using C10_report_true_returns_false [of 4 "[True, True]" example_errors False False]
      C10_report_true_returns_false [of 4 "[True, False]" example_page False False]
    by simp
qed

end
